theory Spec2Isabelle
  imports Main "HOL-Library.AList" "HOL-Library.Word"
begin

section \<open>Python values\<close>

text \<open>
  A Python \<open>str\<close> is modelled by its UTF-8 bytes (\<^typ>\<open>string\<close>). Equality and
  concatenation agree with Python's on that representation; slicing counts code points
  and is modelled by \<open>take_cp\<close> below.

  The values a stored document holds are the scalar ones: \<open>None\<close>, booleans,
  integers, strings and the database's \<open>ObjectId\<close> (twelve bytes, read as a 96-bit
  number). Floats, dates and nested containers are not modelled.
\<close>

datatype pyval = PNone | PBool bool | PInt int | PStr string | PObjectId "96 word"

text \<open>A \<open>dict\<close> keeps insertion order and has one entry per key.\<close>

type_synonym doc = "(string \<times> pyval) list"

text \<open>\<open>d.get(k)\<close>: the value under \<open>k\<close>, or \<open>None\<close>.\<close>

definition dict_get :: "doc \<Rightarrow> string \<Rightarrow> pyval" where
  "dict_get d k = (case map_of d k of None \<Rightarrow> PNone | Some v \<Rightarrow> v)"

text \<open>Truth value of an object in a condition.\<close>

fun truthy :: "pyval \<Rightarrow> bool" where
  "truthy PNone = False"
| "truthy (PBool b) = b"
| "truthy (PInt i) = (i \<noteq> 0)"
| "truthy (PStr s) = (s \<noteq> [])"
| "truthy (PObjectId w) = True"

text \<open>Decimal digits of a natural number, most significant first.\<close>

fun dec_str :: "nat \<Rightarrow> string" where
  "dec_str n =
     (if n < 10 then [''0123456789'' ! n]
      else dec_str (n div 10) @ [''0123456789'' ! (n mod 10)])"

declare dec_str.simps [simp del]

text \<open>The \<open>k\<close> lowest hexadecimal digits of a number, most significant first.\<close>

fun hex_str :: "nat \<Rightarrow> nat \<Rightarrow> string" where
  "hex_str 0 n = []"
| "hex_str (Suc k) n = hex_str k (n div 16) @ [''0123456789abcdef'' ! (n mod 16)]"

text \<open>An \<open>ObjectId\<close> prints as the 24 hexadecimal digits of its bytes.\<close>

definition object_id_str :: "96 word \<Rightarrow> string" where
  "object_id_str w = hex_str 24 (unat w)"

text \<open>\<open>str(v)\<close>\<close>

fun py_str :: "pyval \<Rightarrow> string" where
  "py_str PNone = ''None''"
| "py_str (PBool b) = (if b then ''True'' else ''False'')"
| "py_str (PInt i) = (if i < 0 then ''-'' @ dec_str (nat (- i)) else dec_str (nat i))"
| "py_str (PStr s) = s"
| "py_str (PObjectId w) = object_id_str w"

text \<open>
  \<open>s[:n]\<close> on a \<open>str\<close>: the first \<open>n\<close> code points. In UTF-8 the bytes
  \<open>0x80..0xBF\<close> continue a code point; every other byte starts one.
\<close>

definition utf8_cont :: "char \<Rightarrow> bool" where
  "utf8_cont c = (128 \<le> (of_char c :: nat) \<and> (of_char c :: nat) < 192)"

fun take_cp :: "nat \<Rightarrow> string \<Rightarrow> string" where
  "take_cp n [] = []"
| "take_cp n (c # cs) =
     (if utf8_cont c then c # take_cp n cs
      else (case n of 0 \<Rightarrow> [] | Suc m \<Rightarrow> c # take_cp m cs))"

section \<open>Exceptions\<close>

text \<open>
  An exception raised under the handlers' \<open>try\<close> is either one raised by the storage
  layer, given by its \<open>str()\<close>, or the validation library's \<open>ValidationError\<close>
  for a model class. The library's multi-line report is abbreviated to its title line.
\<close>

datatype exn = Exception string | ValidationError string

fun exn_str :: "exn \<Rightarrow> string" where
  "exn_str (Exception msg) = msg"
| "exn_str (ValidationError cls) = ''validation error for '' @ cls"

datatype http_exception = HTTPException (status_code: nat) (detail: string)

section \<open>Schema classes\<close>

text \<open>
  \<open>schemas.py\<close> is not part of the sources, so the classes \<open>Inquiry\<close> and
  \<open>Application\<close> are parameters: a class is the list of its declared fields, each
  with its validator (\<open>None\<close> when the value is rejected) and its default (\<open>None\<close>
  when the field is required).
\<close>

type_synonym field_info = "(pyval \<Rightarrow> pyval option) \<times> pyval option"
type_synonym model_class = "(string \<times> field_info) list"

text \<open>
  Calling a model class with keyword arguments: every declared field is validated when
  given and takes its default when not; arguments that name no field are ignored.
\<close>

fun model_init :: "string \<Rightarrow> model_class \<Rightarrow> doc \<Rightarrow> exn + doc" where
  "model_init cls [] kwargs = Inr []"
| "model_init cls ((name, validator, dflt) # fields) kwargs =
     (case (case map_of kwargs name of None \<Rightarrow> dflt | Some v \<Rightarrow> validator v) of
        None \<Rightarrow> Inl (ValidationError cls)
      | Some v \<Rightarrow>
          (case model_init cls fields kwargs of
             Inl e \<Rightarrow> Inl e
           | Inr obj \<Rightarrow> Inr ((name, v) # obj)))"

text \<open>The annotation \<open>Optional[str]\<close>.\<close>

fun optional_str :: "pyval \<Rightarrow> pyval option" where
  "optional_str PNone = Some PNone"
| "optional_str (PStr s) = Some (PStr s)"
| "optional_str v = None"

text \<open>
  \<open>class InquiryOut(Inquiry): id: Optional[str] = None\<close>, and the same for
  \<open>ApplicationOut\<close>: the parent's fields, with \<open>id\<close> declared anew.
\<close>

definition InquiryOut :: "model_class \<Rightarrow> model_class" where
  "InquiryOut Inquiry = AList.update ''id'' (optional_str, Some PNone) Inquiry"

definition ApplicationOut :: "model_class \<Rightarrow> model_class" where
  "ApplicationOut Application = AList.update ''id'' (optional_str, Some PNone) Application"

section \<open>The document handlers of \<open>main.py\<close>\<close>

text \<open>
  \<open>create_document\<close> and \<open>get_documents\<close> are imported from \<open>database.py\<close>. The
  handlers take them as parameters: an operation on a storage state \<open>'s\<close> that returns
  or raises, and leaves a new state.
\<close>

type_synonym ('s, 'a) storage = "'s \<Rightarrow> (exn + 'a) \<times> 's"

record create_response =
  id :: string
  message :: string

text \<open>\<open>except Exception as e: raise HTTPException(status_code=500, detail=str(e))\<close>\<close>

definition reraise_500 :: "exn + 'a \<Rightarrow> http_exception + 'a" where
  "reraise_500 r = (case r of Inl e \<Rightarrow> Inl (HTTPException 500 (exn_str e)) | Inr v \<Rightarrow> Inr v)"

definition create_inquiry ::
  "(string \<Rightarrow> doc \<Rightarrow> ('s, string) storage) \<Rightarrow> doc \<Rightarrow> 's \<Rightarrow> (http_exception + create_response) \<times> 's" where
  "create_inquiry create_document inquiry s =
     (case create_document ''inquiry'' inquiry s of (r, s') \<Rightarrow>
        (reraise_500
           (case r of
              Inl e \<Rightarrow> Inl e
            | Inr new_id \<Rightarrow>
                Inr \<lparr>id = new_id,
                     message = ''Inquiry received. Our team will contact you shortly.''\<rparr>),
         s'))"

definition create_application ::
  "(string \<Rightarrow> doc \<Rightarrow> ('s, string) storage) \<Rightarrow> doc \<Rightarrow> 's \<Rightarrow> (http_exception + create_response) \<times> 's" where
  "create_application create_document application s =
     (case create_document ''application'' application s of (r, s') \<Rightarrow>
        (reraise_500
           (case r of
              Inl e \<Rightarrow> Inl e
            | Inr new_id \<Rightarrow>
                Inr \<lparr>id = new_id,
                     message = ''Application submitted. Our HR team will reach out if there's a fit.''\<rparr>),
         s'))"

text \<open>
  The two statements that shape a stored document, the same in both list handlers:
  \<^verbatim>\<open>d_copy = {k: v for k, v in d.items() if k not in ["_id"]}\<close> and
  \<^verbatim>\<open>d_copy["id"] = str(d.get("_id")) if d.get("_id") else None\<close>.
\<close>

definition d_copy :: "doc \<Rightarrow> doc" where
  "d_copy d =
     AList.update ''id''
       (if truthy (dict_get d ''_id'') then PStr (py_str (dict_get d ''_id'')) else PNone)
       (filter (\<lambda>(k, v). k \<notin> set [''_id'']) d)"

text \<open>
  The loop \<open>for d in docs: ... out.append(Out(**d_copy))\<close>, with the list \<open>out\<close>
  built so far; the first exception ends it.
\<close>

fun for_docs :: "string \<Rightarrow> model_class \<Rightarrow> doc list \<Rightarrow> doc list \<Rightarrow> exn + doc list" where
  "for_docs cls Out out [] = Inr out"
| "for_docs cls Out out (d # docs) =
     (case model_init cls Out (d_copy d) of
        Inl e \<Rightarrow> Inl e
      | Inr obj \<Rightarrow> for_docs cls Out (out @ [obj]) docs)"

definition list_inquiries ::
  "model_class \<Rightarrow> (string \<Rightarrow> doc \<Rightarrow> int \<Rightarrow> ('s, doc list) storage) \<Rightarrow> int \<Rightarrow> 's \<Rightarrow>
     (http_exception + doc list) \<times> 's" where
  "list_inquiries Inquiry get_documents limit s =
     (case get_documents ''inquiry'' [] limit s of (r, s') \<Rightarrow>
        (reraise_500
           (case r of
              Inl e \<Rightarrow> Inl e
            | Inr docs \<Rightarrow> for_docs ''InquiryOut'' (InquiryOut Inquiry) [] docs),
         s'))"

definition list_applications ::
  "model_class \<Rightarrow> (string \<Rightarrow> doc \<Rightarrow> int \<Rightarrow> ('s, doc list) storage) \<Rightarrow> int \<Rightarrow> 's \<Rightarrow>
     (http_exception + doc list) \<times> 's" where
  "list_applications Application get_documents limit s =
     (case get_documents ''application'' [] limit s of (r, s') \<Rightarrow>
        (reraise_500
           (case r of
              Inl e \<Rightarrow> Inl e
            | Inr docs \<Rightarrow> for_docs ''ApplicationOut'' (ApplicationOut Application) [] docs),
         s'))"

section \<open>The transport layer in front of the list handlers\<close>

text \<open>
  \<open>limit: int = Query(20, ge=1, le=100)\<close>: the framework reads the query parameter
  before it calls the handler. An omitted parameter takes the default; a given one is
  accepted when it lies within the bounds and refused otherwise.
\<close>

definition Query :: "int \<Rightarrow> int \<Rightarrow> int \<Rightarrow> int option \<Rightarrow> int option" where
  "Query dflt ge le given =
     (case given of
        None \<Rightarrow> Some dflt
      | Some v \<Rightarrow> (if ge \<le> v \<and> v \<le> le then Some v else None))"

text \<open>
  What the client receives: the handler's return value, the handler's
  \<open>HTTPException\<close> with its status and detail, or the framework's refusal of the
  request (status 422).
\<close>

datatype 'a reply = Reply 'a | ErrorReply nat string | Unprocessable

fun reply_status :: "'a reply \<Rightarrow> nat" where
  "reply_status (Reply v) = 200"
| "reply_status (ErrorReply code msg) = code"
| "reply_status Unprocessable = 422"

definition respond :: "(http_exception + 'a) \<times> 's \<Rightarrow> 'a reply \<times> 's" where
  "respond r =
     (case r of
        (Inl (HTTPException code msg), s') \<Rightarrow> (ErrorReply code msg, s')
      | (Inr v, s') \<Rightarrow> (Reply v, s'))"

definition get_api_inquiries ::
  "model_class \<Rightarrow> (string \<Rightarrow> doc \<Rightarrow> int \<Rightarrow> ('s, doc list) storage) \<Rightarrow> int option \<Rightarrow> 's \<Rightarrow>
     doc list reply \<times> 's" where
  "get_api_inquiries Inquiry get_documents given s =
     (case Query 20 1 100 given of
        None \<Rightarrow> (Unprocessable, s)
      | Some limit \<Rightarrow> respond (list_inquiries Inquiry get_documents limit s))"

definition get_api_applications ::
  "model_class \<Rightarrow> (string \<Rightarrow> doc \<Rightarrow> int \<Rightarrow> ('s, doc list) storage) \<Rightarrow> int option \<Rightarrow> 's \<Rightarrow>
     doc list reply \<times> 's" where
  "get_api_applications Application get_documents given s =
     (case Query 20 1 100 given of
        None \<Rightarrow> (Unprocessable, s)
      | Some limit \<Rightarrow> respond (list_applications Application get_documents limit s))"

text \<open>
  A storage that only records the arguments of every \<open>get_documents\<close> call, used to
  observe what a handler passes on.
\<close>

definition recording_get_documents ::
  "string \<Rightarrow> doc \<Rightarrow> int \<Rightarrow> ((string \<times> doc \<times> int) list, doc list) storage" where
  "recording_get_documents kind flt limit calls = (Inr [], calls @ [(kind, flt, limit)])"

section \<open>The diagnostic endpoint \<open>/test\<close>\<close>

text \<open>
  The global \<open>db\<close> is \<open>None\<close> or a handle. Of a handle the endpoint uses the
  attribute \<open>name\<close> (absent, raising when read, or a value) and the method
  \<open>list_collection_names\<close> (raising, or a list of names).
\<close>

record db_handle =
  name_attr :: "(exn + pyval) option"
  list_collection_names :: "exn + string list"

record test_response =
  backend :: string
  database :: string
  database_url :: pyval
  database_name :: pyval
  connection_status :: string
  collections :: "string list"

text \<open>The three symbols of the status texts, as UTF-8.\<close>

definition check_mark :: string where
  "check_mark = [CHR 0xE2, CHR 0x9C, CHR 0x85]"

definition cross_mark :: string where
  "cross_mark = [CHR 0xE2, CHR 0x9D, CHR 0x8C]"

definition warning_sign :: string where
  "warning_sign = [CHR 0xE2, CHR 0x9A, CHR 0xA0, CHR 0xEF, CHR 0xB8, CHR 0x8F]"

text \<open>\<open>os.getenv(k)\<close> in a condition: set, and not to the empty string.\<close>

definition env_set :: "(string \<Rightarrow> string option) \<Rightarrow> string \<Rightarrow> bool" where
  "env_set getenv k = (case getenv k of None \<Rightarrow> False | Some v \<Rightarrow> v \<noteq> [])"

definition test_database :: "db_handle option \<Rightarrow> (string \<Rightarrow> string option) \<Rightarrow> test_response" where
  "test_database db getenv =
     (let response =
            \<lparr>backend = check_mark @ '' Running'',
             database = cross_mark @ '' Not Available'',
             database_url = PNone,
             database_name = PNone,
             connection_status = ''Not Connected'',
             collections = []\<rparr>;
          response =
            (case db of
               None \<Rightarrow> response\<lparr>database := warning_sign @ ''  Available but not initialized''\<rparr>
             | Some h \<Rightarrow>
                 (let response = response
                        \<lparr>database := check_mark @ '' Available'',
                         database_url := PStr (check_mark @ '' Configured'')\<rparr>
                  in case name_attr h of
                       Some (Inl e) \<Rightarrow>
                         response\<lparr>database := cross_mark @ '' Error: '' @ take_cp 50 (exn_str e)\<rparr>
                     | attr \<Rightarrow>
                         (let response = response
                                \<lparr>database_name :=
                                   (case attr of
                                      Some (Inr v) \<Rightarrow> v
                                    | _ \<Rightarrow> PStr (check_mark @ '' Connected'')),
                                 connection_status := ''Connected''\<rparr>
                          in case list_collection_names h of
                               Inr names \<Rightarrow>
                                 response
                                   \<lparr>collections := take 10 names,
                                    database := check_mark @ '' Connected & Working''\<rparr>
                             | Inl e \<Rightarrow>
                                 response
                                   \<lparr>database :=
                                      warning_sign @ ''  Connected but Error: '' @
                                      take_cp 50 (exn_str e)\<rparr>)))
      in response
           \<lparr>database_url :=
              PStr (if env_set getenv ''DATABASE_URL'' then check_mark @ '' Set''
                    else cross_mark @ '' Not Set''),
            database_name :=
              PStr (if env_set getenv ''DATABASE_NAME'' then check_mark @ '' Set''
                    else cross_mark @ '' Not Set'')\<rparr>)"

section \<open>The persistence helper\<close>

text \<open>
  Modelled from the spec: the database behind \<open>database.py\<close>, which is missing from
  the sources. The spec gives one collection per document kind, kept in insertion order,
  and a server-generated unique identifier for every stored document; here the
  identifiers are taken from a counter. \<open>failure\<close> is the storage error that an
  unreachable or refusing database raises.
\<close>

record database =
  stored :: "string \<Rightarrow> doc list"
  next_oid :: "96 word"
  failure :: "exn option"

definition empty_database :: database where
  "empty_database = \<lparr>stored = (\<lambda>kind. []), next_oid = 0, failure = None\<rparr>"

text \<open>
  Modelled from the spec: \<open>create_document(kind, payload)\<close> of the missing
  \<open>database.py\<close>. It inserts the payload into the collection named after the kind,
  under a new identifier, and returns the identifier as a string; it fails with a storage
  error when the database is unreachable or rejects the insert.
\<close>

definition create_document :: "string \<Rightarrow> doc \<Rightarrow> (database, string) storage" where
  "create_document kind payload db =
     (case failure db of
        Some e \<Rightarrow> (Inl e, db)
      | None \<Rightarrow>
          (let oid = next_oid db;
               d = AList.update ''_id'' (PObjectId oid) payload
           in (Inr (py_str (PObjectId oid)),
               db\<lparr>stored := (stored db)(kind := stored db kind @ [d]),
                  next_oid := oid + 1\<rparr>)))"

text \<open>
  Modelled from the spec: the filter of \<open>get_documents\<close>, a mapping of field names
  to the values a document must hold; the handlers always pass the empty one.
\<close>

definition matches :: "doc \<Rightarrow> doc \<Rightarrow> bool" where
  "matches flt d = list_all (\<lambda>(k, v). map_of d k = Some v) flt"

text \<open>
  Modelled from the spec: \<open>get_documents(kind, filter, limit)\<close> of the missing
  \<open>database.py\<close>. It returns up to \<open>limit\<close> documents of the collection, in
  insertion order, and fails with a storage error under the same conditions as the insert.
\<close>

definition get_documents :: "string \<Rightarrow> doc \<Rightarrow> int \<Rightarrow> (database, doc list) storage" where
  "get_documents kind flt limit db =
     (case failure db of
        Some e \<Rightarrow> (Inl e, db)
      | None \<Rightarrow> (Inr (take (nat limit) (filter (matches flt) (stored db kind))), db))"

section \<open>Valid payloads\<close>

text \<open>
  A class is well formed when its field names are distinct and none starts with an
  underscore (the validation library keeps such names out of the fields).
\<close>

definition class_ok :: "model_class \<Rightarrow> bool" where
  "class_ok cls =
     (distinct (map fst cls) \<and> list_all (\<lambda>(name, info). take 1 name \<noteq> ''_'') cls)"

text \<open>
  A valid payload of a class is what an instance of the class holds: the declared fields
  in order, each with a value that its validator accepts as it is.
\<close>

definition accepts :: "string \<times> pyval \<Rightarrow> string \<times> field_info \<Rightarrow> bool" where
  "accepts kv field = (fst kv = fst field \<and> fst (snd field) (snd kv) = Some (snd kv))"

definition valid_payload :: "model_class \<Rightarrow> doc \<Rightarrow> bool" where
  "valid_payload cls p = (class_ok cls \<and> list_all2 accepts p cls)"

text \<open>What \<open>create_document\<close> stores for a valid payload.\<close>

definition stored_ok :: "model_class \<Rightarrow> doc \<Rightarrow> bool" where
  "stored_ok cls d =
     (valid_payload cls (filter (\<lambda>(k, v). k \<noteq> ''_id'') d) \<and>
      (case map_of d ''_id'' of Some (PObjectId w) \<Rightarrow> True | _ \<Rightarrow> False))"

text \<open>
  A stored document whose declared fields, \<open>id\<close> apart, are all given with a value
  the class accepts or have a default.
\<close>

definition other_fields_ok :: "model_class \<Rightarrow> doc \<Rightarrow> bool" where
  "other_fields_ok cls d =
     list_all (\<lambda>(name, validator, dflt).
        name = ''id'' \<or>
        (case map_of d name of None \<Rightarrow> dflt | Some v \<Rightarrow> validator v) \<noteq> None) cls"

text \<open>What a stored document with an identifier is listed as.\<close>

definition listed :: "doc \<Rightarrow> doc" where
  "listed d =
     AList.update ''id'' (PStr (py_str (dict_get d ''_id''))) (filter (\<lambda>(k, v). k \<noteq> ''_id'') d)"

section \<open>Example inputs\<close>

text \<open>
  The spec's example: a class with the three required string fields \<open>name\<close>,
  \<open>email\<close> and \<open>message\<close>, and the payload
  \<^verbatim>\<open>{"name":"A","email":"a@x.com","message":"hi"}\<close>.
\<close>

fun required_str :: "pyval \<Rightarrow> pyval option" where
  "required_str (PStr s) = Some (PStr s)"
| "required_str v = None"

definition example_class :: model_class where
  "example_class =
     [(''name'', required_str, None), (''email'', required_str, None),
      (''message'', required_str, None)]"

definition example_payload :: doc where
  "example_payload =
     [(''name'', PStr ''A''), (''email'', PStr ''a@x.com''), (''message'', PStr ''hi'')]"

text \<open>The database after one and after two inserts of the example payload.\<close>

definition inserted :: "string \<Rightarrow> database" where
  "inserted kind =
     \<lparr>stored = (\<lambda>k. [])(kind := [example_payload @ [(''_id'', PObjectId 0)]]),
      next_oid = 1, failure = None\<rparr>"

definition inserted_twice :: "string \<Rightarrow> database" where
  "inserted_twice kind =
     \<lparr>stored = (\<lambda>k. [])(kind := [example_payload @ [(''_id'', PObjectId 0)],
                                  example_payload @ [(''_id'', PObjectId 1)]]),
      next_oid = 2, failure = None\<rparr>"

text \<open>A database that refuses every operation.\<close>

definition unreachable :: database where
  "unreachable = empty_database\<lparr>failure := Some (Exception ''connection refused'')\<rparr>"

text \<open>Collections holding one document with an identifier.\<close>

definition one_stored :: database where
  "one_stored =
     \<lparr>stored = (\<lambda>kind. [example_payload @ [(''_id'', PObjectId 10)]]),
      next_oid = 11, failure = None\<rparr>"

text \<open>
  Collections holding a document without \<open>_id\<close> and one whose \<open>_id\<close> is \<open>0\<close>.
\<close>

definition without_ids :: database where
  "without_ids =
     \<lparr>stored = (\<lambda>k. [example_payload, example_payload @ [(''_id'', PInt 0)]]),
      next_oid = 0, failure = None\<rparr>"

text \<open>Database handles for \<open>/test\<close>: one that works, one whose listing fails.\<close>

definition working_handle :: db_handle where
  "working_handle =
     \<lparr>name_attr = Some (Inr (PStr ''app'')),
      list_collection_names =
        Inr [''c01'', ''c02'', ''c03'', ''c04'', ''c05'', ''c06'', ''c07'', ''c08'', ''c09'',
             ''c10'', ''c11'', ''c12'']\<rparr>"

definition failing_handle :: db_handle where
  "failing_handle =
     \<lparr>name_attr = Some (Inr (PStr ''app'')),
      list_collection_names = Inl (Exception ''connection refused'')\<rparr>"

definition example_env :: "string \<Rightarrow> string option" where
  "example_env k = (if k = ''DATABASE_URL'' then Some ''mongodb://localhost'' else None)"

section \<open>Facts about model classes and the shaping loop\<close>

lemma model_init_keys:
  "model_init c cls kw = Inr obj \<Longrightarrow> map fst obj = map fst cls"
  by (induction cls arbitrary: obj) (auto split: option.splits sum.splits)

lemma model_init_map_of:
  "model_init c cls kw = Inr obj \<Longrightarrow> map_of cls name = Some (val, dflt) \<Longrightarrow>
   map_of obj name = (case map_of kw name of None \<Rightarrow> dflt | Some v \<Rightarrow> val v)"
  by (induction cls arbitrary: obj) (auto split: option.splits sum.splits if_splits)

lemma model_init_error: "model_init c cls kw = Inl e \<Longrightarrow> e = ValidationError c"
  by (induction cls) (auto split: option.splits sum.splits)

lemma model_init_succeeds:
  "(\<exists>obj. model_init c fs kw = Inr obj) \<longleftrightarrow>
   (\<forall>(name, validator, dflt) \<in> set fs.
      (case map_of kw name of None \<Rightarrow> dflt | Some v \<Rightarrow> validator v) \<noteq> None)"
  by (induction fs) (auto split: option.splits sum.splits)

lemma set_update_distinct:
  "distinct (map fst al) \<Longrightarrow> x \<in> set (AList.update k v al) \<Longrightarrow>
   x = (k, v) \<or> (x \<in> set al \<and> fst x \<noteq> k)"
  by (induction al) (auto split: if_splits simp: image_iff)

lemma d_copy_id:
  "map_of (d_copy d) ''id'' =
     Some (if truthy (dict_get d ''_id'') then PStr (py_str (dict_get d ''_id'')) else PNone)"
  by (simp add: d_copy_def update_conv')

lemma d_copy_no_internal_id: "map_of (d_copy d) ''_id'' = None"
  by (simp add: d_copy_def update_conv' map_of_eq_None_iff image_iff)

lemma d_copy_other:
  "name \<noteq> ''id'' \<Longrightarrow> name \<noteq> ''_id'' \<Longrightarrow> map_of (d_copy d) name = map_of d name"
  by (induction d) (auto simp: d_copy_def update_conv')

lemma class_ok_names:
  "class_ok cls \<Longrightarrow> (name, info) \<in> set cls \<Longrightarrow> name \<noteq> ''_id''"
  by (auto simp: class_ok_def list_all_iff)

lemma class_ok_no_internal: "class_ok cls \<Longrightarrow> ''_id'' \<notin> fst ` set cls"
  by (auto dest: class_ok_names)

lemma out_init_succeeds:
  assumes "class_ok cls" and "other_fields_ok cls d"
  shows "\<exists>obj. model_init c (AList.update ''id'' (optional_str, Some PNone) cls) (d_copy d) = Inr obj"
proof -
  have "(case map_of (d_copy d) name of None \<Rightarrow> dflt | Some v \<Rightarrow> validator v) \<noteq> None"
    if mem: "(name, validator, dflt) \<in> set (AList.update ''id'' (optional_str, Some PNone) cls)"
    for name validator dflt
  proof -
    from assms(1) have "distinct (map fst cls)" by (simp add: class_ok_def)
    from set_update_distinct [OF this mem]
    consider "name = ''id''" "validator = optional_str"
      | "(name, validator, dflt) \<in> set cls" "name \<noteq> ''id''" by auto
    then show ?thesis
    proof cases
      case 1
      then show ?thesis by (simp add: d_copy_id)
    next
      case 2
      from assms(1) 2(1) have "name \<noteq> ''_id''" by (rule class_ok_names)
      moreover from assms(2) 2
      have "(case map_of d name of None \<Rightarrow> dflt | Some v \<Rightarrow> validator v) \<noteq> None"
        by (auto simp: other_fields_ok_def list_all_iff)
      ultimately show ?thesis using 2(2) by (simp add: d_copy_other)
    qed
  qed
  then show ?thesis unfolding model_init_succeeds by blast
qed

lemma out_id:
  "model_init c (AList.update ''id'' (optional_str, Some PNone) cls) (d_copy d) = Inr obj \<Longrightarrow>
   map_of obj ''id'' =
     Some (if truthy (dict_get d ''_id'') then PStr (py_str (dict_get d ''_id'')) else PNone)"
  by (drule model_init_map_of [where name = "''id''" and val = optional_str and dflt = "Some PNone"])
    (simp_all add: update_conv' d_copy_id)

lemma out_no_internal_id:
  "model_init c (AList.update ''id'' info cls) kw = Inr obj \<Longrightarrow> ''_id'' \<notin> fst ` set cls \<Longrightarrow>
   map_of obj ''_id'' = None"
proof -
  assume a: "model_init c (AList.update ''id'' info cls) kw = Inr obj" and b: "''_id'' \<notin> fst ` set cls"
  from model_init_keys [OF a] have "fst ` set obj = fst ` set (AList.update ''id'' info cls)"
    by (metis set_map)
  with b have "''_id'' \<notin> fst ` set obj" by (simp add: dom_update)
  then show ?thesis by (simp add: map_of_eq_None_iff)
qed

lemma for_docs_Inr:
  "for_docs c Out out docs = Inr res \<Longrightarrow>
   \<exists>objs. res = out @ objs \<and>
          list_all2 (\<lambda>d obj. model_init c Out (d_copy d) = Inr obj) docs objs"
proof (induction docs arbitrary: out)
  case Nil
  then show ?case by simp
next
  case (Cons d docs)
  from Cons.prems obtain obj where obj: "model_init c Out (d_copy d) = Inr obj"
    and rest: "for_docs c Out (out @ [obj]) docs = Inr res"
    by (auto split: sum.splits)
  from Cons.IH [OF rest] obtain objs where "res = (out @ [obj]) @ objs"
    and "list_all2 (\<lambda>d obj. model_init c Out (d_copy d) = Inr obj) docs objs" by blast
  with obj show ?case by (intro exI [of _ "obj # objs"]) simp
qed

lemma for_docs_Inl:
  "for_docs c Out out docs = Inl e \<Longrightarrow> \<exists>d \<in> set docs. model_init c Out (d_copy d) = Inl e"
  by (induction docs arbitrary: out) (auto split: sum.splits)

lemma for_docs_all:
  "\<forall>d \<in> set docs. model_init c Out (d_copy d) = Inr (g d) \<Longrightarrow>
   for_docs c Out out docs = Inr (out @ map g docs)"
  by (induction docs arbitrary: out) auto

lemma reraise_500_Inl: "reraise_500 r = Inl h \<Longrightarrow> status_code h = 500"
  by (auto simp: reraise_500_def split: sum.splits)

lemma list_inquiries_Inr:
  "list_inquiries Inquiry gd limit s = (Inr out, t) \<Longrightarrow>
   gd ''inquiry'' [] limit s = (Inr docs, t') \<Longrightarrow>
   t' = t \<and> list_all2 (\<lambda>d obj. model_init ''InquiryOut'' (InquiryOut Inquiry) (d_copy d) = Inr obj) docs out"
  by (auto simp: list_inquiries_def reraise_500_def split: sum.splits dest!: for_docs_Inr)

lemma list_applications_Inr:
  "list_applications Application gd limit s = (Inr out, t) \<Longrightarrow>
   gd ''application'' [] limit s = (Inr docs, t') \<Longrightarrow>
   t' = t \<and> list_all2 (\<lambda>d obj. model_init ''ApplicationOut'' (ApplicationOut Application) (d_copy d) = Inr obj) docs out"
  by (auto simp: list_applications_def reraise_500_def split: sum.splits dest!: for_docs_Inr)

lemma listed_objects:
  assumes "list_all2 (\<lambda>d obj. model_init c (AList.update ''id'' (optional_str, Some PNone) cls) (d_copy d) = Inr obj) docs out"
    and "i < length docs"
  shows "length out = length docs"
    and "map_of (out ! i) ''id'' =
      Some (if truthy (dict_get (docs ! i) ''_id'') then PStr (py_str (dict_get (docs ! i) ''_id''))
            else PNone)"
    and "''_id'' \<notin> fst ` set cls \<Longrightarrow> map_of (out ! i) ''_id'' = None"
proof -
  from assms(1) show len: "length out = length docs" by (simp add: list_all2_lengthD)
  from assms have init: "model_init c (AList.update ''id'' (optional_str, Some PNone) cls) (d_copy (docs ! i)) = Inr (out ! i)"
    using list_all2_nthD [OF assms(1) assms(2)] by simp
  from out_id [OF init] show "map_of (out ! i) ''id'' =
      Some (if truthy (dict_get (docs ! i) ''_id'') then PStr (py_str (dict_get (docs ! i) ''_id''))
            else PNone)" .
  show "map_of (out ! i) ''_id'' = None" if "''_id'' \<notin> fst ` set cls"
    using out_no_internal_id [OF init that] .
qed

lemma listed_inquiries:
  assumes "gd ''inquiry'' [] limit s = (Inr docs, t)"
    and "list_inquiries Inquiry gd limit s = (Inr out, t')" and "i < length docs"
  shows "length out = length docs"
    and "map_of (out ! i) ''id'' =
      Some (if truthy (dict_get (docs ! i) ''_id'') then PStr (py_str (dict_get (docs ! i) ''_id''))
            else PNone)"
    and "''_id'' \<notin> fst ` set Inquiry \<Longrightarrow> map_of (out ! i) ''_id'' = None"
proof -
  from list_inquiries_Inr [OF assms(2) assms(1)]
  have l: "list_all2 (\<lambda>d obj. model_init ''InquiryOut''
      (AList.update ''id'' (optional_str, Some PNone) Inquiry) (d_copy d) = Inr obj) docs out"
    by (simp add: InquiryOut_def)
  from listed_objects [OF l assms(3)]
  show "length out = length docs"
    and "map_of (out ! i) ''id'' =
      Some (if truthy (dict_get (docs ! i) ''_id'') then PStr (py_str (dict_get (docs ! i) ''_id''))
            else PNone)"
    and "''_id'' \<notin> fst ` set Inquiry \<Longrightarrow> map_of (out ! i) ''_id'' = None"
    by simp_all
qed

lemma listed_applications:
  assumes "gd ''application'' [] limit s = (Inr docs, t)"
    and "list_applications Application gd limit s = (Inr out, t')" and "i < length docs"
  shows "length out = length docs"
    and "map_of (out ! i) ''id'' =
      Some (if truthy (dict_get (docs ! i) ''_id'') then PStr (py_str (dict_get (docs ! i) ''_id''))
            else PNone)"
    and "''_id'' \<notin> fst ` set Application \<Longrightarrow> map_of (out ! i) ''_id'' = None"
proof -
  from list_applications_Inr [OF assms(2) assms(1)]
  have l: "list_all2 (\<lambda>d obj. model_init ''ApplicationOut''
      (AList.update ''id'' (optional_str, Some PNone) Application) (d_copy d) = Inr obj) docs out"
    by (simp add: ApplicationOut_def)
  from listed_objects [OF l assms(3)]
  show "length out = length docs"
    and "map_of (out ! i) ''id'' =
      Some (if truthy (dict_get (docs ! i) ''_id'') then PStr (py_str (dict_get (docs ! i) ''_id''))
            else PNone)"
    and "''_id'' \<notin> fst ` set Application \<Longrightarrow> map_of (out ! i) ''_id'' = None"
    by simp_all
qed

lemma list_inquiries_succeeds:
  assumes "class_ok Inquiry" and "gd ''inquiry'' [] limit s = (Inr docs, t)"
    and "\<forall>d \<in> set docs. other_fields_ok Inquiry d"
  shows "\<exists>out. list_inquiries Inquiry gd limit s = (Inr out, t)"
proof (cases "for_docs ''InquiryOut'' (InquiryOut Inquiry) [] docs")
  case (Inl e)
  from for_docs_Inl [OF this] obtain d where "d \<in> set docs"
    and "model_init ''InquiryOut'' (InquiryOut Inquiry) (d_copy d) = Inl e" by blast
  with assms(1,3) out_init_succeeds [of Inquiry d "''InquiryOut''"] show ?thesis
    by (auto simp: InquiryOut_def)
next
  case (Inr out)
  with assms(2) show ?thesis by (simp add: list_inquiries_def reraise_500_def)
qed

lemma list_applications_succeeds:
  assumes "class_ok Application" and "gd ''application'' [] limit s = (Inr docs, t)"
    and "\<forall>d \<in> set docs. other_fields_ok Application d"
  shows "\<exists>out. list_applications Application gd limit s = (Inr out, t)"
proof (cases "for_docs ''ApplicationOut'' (ApplicationOut Application) [] docs")
  case (Inl e)
  from for_docs_Inl [OF this] obtain d where "d \<in> set docs"
    and "model_init ''ApplicationOut'' (ApplicationOut Application) (d_copy d) = Inl e" by blast
  with assms(1,3) out_init_succeeds [of Application d "''ApplicationOut''"] show ?thesis
    by (auto simp: ApplicationOut_def)
next
  case (Inr out)
  with assms(2) show ?thesis by (simp add: list_applications_def reraise_500_def)
qed

lemma create_inquiry_Inr:
  "create_inquiry cd p s = (Inr r, s') \<Longrightarrow> cd ''inquiry'' p s = (Inr (id r), s')"
  by (auto simp: create_inquiry_def reraise_500_def split: prod.splits sum.splits)

lemma create_application_Inr:
  "create_application cd p s = (Inr r, s') \<Longrightarrow> cd ''application'' p s = (Inr (id r), s')"
  by (auto simp: create_application_def reraise_500_def split: prod.splits sum.splits)

section \<open>Facts about identifiers\<close>

lemma hex_digit_inj:
  "a < 16 \<Longrightarrow> b < 16 \<Longrightarrow> ''0123456789abcdef'' ! a = ''0123456789abcdef'' ! b \<Longrightarrow> a = b"
  by (subst (asm) nth_eq_iff_index_eq) simp_all

lemma length_hex_str: "length (hex_str k n) = k"
  by (induction k arbitrary: n) simp_all

lemma hex_str_inj: "hex_str k m = hex_str k n \<Longrightarrow> m mod 16 ^ k = n mod 16 ^ k"
proof (induction k arbitrary: m n)
  case 0
  then show ?case by simp
next
  case (Suc k)
  from Suc.prems have hi: "hex_str k (m div 16) = hex_str k (n div 16)"
    and lo: "''0123456789abcdef'' ! (m mod 16) = ''0123456789abcdef'' ! (n mod 16)"
    by simp_all
  from lo have "m mod 16 = n mod 16" by (intro hex_digit_inj) simp_all
  moreover from Suc.IH [OF hi] have "m div 16 mod 16 ^ k = n div 16 mod 16 ^ k" .
  ultimately show ?case by (simp add: mod_mult2_eq)
qed

lemma object_id_str_inj:
  assumes "object_id_str v = object_id_str w"
  shows "v = w"
proof -
  have bound: "unat x < (16::nat) ^ 24" for x :: "96 word"
  proof -
    have "unat x < 2 ^ LENGTH(96)" by (rule unsigned_less)
    then show ?thesis by simp
  qed
  from assms have "hex_str 24 (unat v) = hex_str 24 (unat w)" by (simp only: object_id_str_def)
  then have eq: "unat v mod 16 ^ 24 = unat w mod 16 ^ 24" by (rule hex_str_inj)
  have "unat v = unat v mod 16 ^ 24" by (rule mod_less [OF bound, symmetric])
  also note eq
  also have "unat w mod 16 ^ 24 = unat w" by (rule mod_less [OF bound])
  finally show ?thesis by (simp add: word_unat_eq_iff)
qed

lemma object_id_str_nonempty: "object_id_str w \<noteq> []"
proof -
  have "length (object_id_str w) = 24" by (simp only: object_id_str_def length_hex_str)
  then show ?thesis by auto
qed

section \<open>Facts about the persistence helper and valid payloads\<close>

lemma create_document_Inr:
  "create_document kind payload db = (Inr new_id, db') \<Longrightarrow>
   new_id = object_id_str (next_oid db) \<and> next_oid db' = next_oid db + 1 \<and>
   failure db' = None \<and>
   stored db' = (stored db)(kind := stored db kind @ [AList.update ''_id'' (PObjectId (next_oid db)) payload])"
  by (auto simp: create_document_def Let_def split: option.splits)

lemma get_documents_all:
  "failure db = None \<Longrightarrow> int (length (stored db kind)) \<le> limit \<Longrightarrow>
   get_documents kind [] limit db = (Inr (stored db kind), db)"
  by (simp add: get_documents_def matches_def)

lemma model_init_accepts:
  "list_all2 accepts q fs \<Longrightarrow> \<forall>(k, v) \<in> set q. map_of kw k = Some v \<Longrightarrow>
   model_init c fs kw = Inr q"
proof (induction q fs rule: list_all2_induct)
  case Nil
  then show ?case by simp
next
  case (Cons x q f fs)
  obtain k v where x: "x = (k, v)" by (cases x)
  obtain name validator dflt where f: "f = (name, validator, dflt)" by (cases f)
  from Cons.hyps(1) x f have "name = k" "validator v = Some v" by (simp_all add: accepts_def)
  moreover from Cons.prems x have "map_of kw k = Some v" by simp
  moreover from Cons.IH Cons.prems have "model_init c fs kw = Inr q" by simp
  ultimately show ?case by (simp add: x f)
qed

lemma accepts_update:
  "list_all2 accepts p cls \<Longrightarrow> validator v = Some v \<Longrightarrow>
   list_all2 accepts (AList.update k v p) (AList.update k (validator, dflt) cls)"
proof (induction p cls rule: list_all2_induct)
  case Nil
  then show ?case by (simp add: accepts_def)
next
  case (Cons x p f cls)
  from Cons.hyps(1) have "fst x = fst f" by (simp add: accepts_def)
  moreover have "accepts (k, v) (k, validator, dflt)"
    using Cons.prems by (simp add: accepts_def)
  ultimately show ?case using Cons.hyps Cons.IH [OF Cons.prems] by simp
qed

lemma accepts_keys: "list_all2 accepts p cls \<Longrightarrow> map fst p = map fst cls"
  by (induction p cls rule: list_all2_induct) (auto simp: accepts_def)

lemma filter_update_same:
  "filter (\<lambda>(k, v). k \<noteq> a) (AList.update a x al) = filter (\<lambda>(k, v). k \<noteq> a) al"
  by (induction al) auto

lemma filter_absent: "a \<notin> fst ` set al \<Longrightarrow> filter (\<lambda>(k, v). k \<noteq> a) al = al"
  by (induction al) auto

lemma valid_payload_no_internal_id: "valid_payload cls p \<Longrightarrow> ''_id'' \<notin> fst ` set p"
proof -
  assume v: "valid_payload cls p"
  then have "map fst p = map fst cls" by (simp add: valid_payload_def accepts_keys)
  then have "fst ` set p = fst ` set cls" by (metis set_map)
  moreover from v have "''_id'' \<notin> fst ` set cls"
    by (simp add: valid_payload_def class_ok_no_internal)
  ultimately show ?thesis by simp
qed

lemma stored_ok_inserted:
  "valid_payload cls p \<Longrightarrow> stored_ok cls (AList.update ''_id'' (PObjectId w) p)"
  by (frule valid_payload_no_internal_id)
    (simp add: stored_ok_def filter_update_same filter_absent update_conv')

lemma d_copy_stored:
  "map_of d ''_id'' = Some (PObjectId w) \<Longrightarrow>
   d_copy d = AList.update ''id'' (PStr (object_id_str w)) (filter (\<lambda>(k, v). k \<noteq> ''_id'') d)"
  by (simp add: d_copy_def dict_get_def)

lemma out_init_valid:
  assumes "valid_payload cls p"
  shows "model_init c (AList.update ''id'' (optional_str, Some PNone) cls)
           (AList.update ''id'' (PStr i) p) = Inr (AList.update ''id'' (PStr i) p)"
proof (rule model_init_accepts)
  from assms show "list_all2 accepts (AList.update ''id'' (PStr i) p)
      (AList.update ''id'' (optional_str, Some PNone) cls)"
    by (simp add: valid_payload_def accepts_update)
  from assms accepts_keys [of p cls] have "distinct (map fst p)"
    by (simp add: valid_payload_def class_ok_def)
  then have "distinct (map fst (AList.update ''id'' (PStr i) p))" by (rule distinct_update)
  then show "\<forall>(k, v) \<in> set (AList.update ''id'' (PStr i) p).
      map_of (AList.update ''id'' (PStr i) p) k = Some v"
    by auto
qed

lemma out_init_stored:
  assumes "stored_ok cls d"
  shows "model_init c (AList.update ''id'' (optional_str, Some PNone) cls) (d_copy d) = Inr (listed d)"
proof -
  from assms obtain w where w: "map_of d ''_id'' = Some (PObjectId w)"
    by (auto simp: stored_ok_def split: option.splits pyval.splits)
  from assms have "valid_payload cls (filter (\<lambda>(k, v). k \<noteq> ''_id'') d)"
    by (simp add: stored_ok_def)
  from out_init_valid [OF this] w show ?thesis
    by (simp add: d_copy_stored listed_def dict_get_def)
qed

lemma listed_inserted:
  "valid_payload cls p \<Longrightarrow>
   listed (AList.update ''_id'' (PObjectId w) p) = AList.update ''id'' (PStr (object_id_str w)) p"
  by (frule valid_payload_no_internal_id)
    (simp add: listed_def dict_get_def update_conv' filter_update_same filter_absent)

lemma listing_after_insert:
  assumes "valid_payload cls p" and "list_all (stored_ok cls) (stored db kind)"
    and "create_document kind p db = (Inr new_id, db')"
    and "int (length (stored db' kind)) \<le> limit"
  shows "get_documents kind [] limit db' = (Inr (stored db' kind), db')"
    and "for_docs c (AList.update ''id'' (optional_str, Some PNone) cls) [] (stored db' kind) =
      Inr (map listed (stored db' kind))"
    and "AList.update ''id'' (PStr new_id) p \<in> set (map listed (stored db' kind))"
    and "new_id \<noteq> []"
proof -
  let ?d = "AList.update ''_id'' (PObjectId (next_oid db)) p"
  from create_document_Inr [OF assms(3)]
  have new_id: "new_id = object_id_str (next_oid db)" and up: "failure db' = None"
    and docs: "stored db' kind = stored db kind @ [?d]"
    by simp_all
  from up assms(4) show "get_documents kind [] limit db' = (Inr (stored db' kind), db')"
    by (rule get_documents_all)
  from assms(1,2) docs have "\<forall>d \<in> set (stored db' kind). stored_ok cls d"
    by (auto simp: list_all_iff stored_ok_inserted)
  then have "\<forall>d \<in> set (stored db' kind).
      model_init c (AList.update ''id'' (optional_str, Some PNone) cls) (d_copy d) = Inr (listed d)"
    by (simp add: out_init_stored)
  from for_docs_all [OF this, of "[]"]
  show "for_docs c (AList.update ''id'' (optional_str, Some PNone) cls) [] (stored db' kind) =
      Inr (map listed (stored db' kind))" by simp
  from assms(1) have "listed ?d = AList.update ''id'' (PStr new_id) p"
    by (simp only: listed_inserted new_id)
  with docs show "AList.update ''id'' (PStr new_id) p \<in> set (map listed (stored db' kind))"
    by (simp add: image_iff)
  from new_id show "new_id \<noteq> []" by (simp only: object_id_str_nonempty not_False_eq_True)
qed

text \<open>
  Every collection of the empty database holds only documents stored from valid payloads,
  and an insert of a valid payload keeps it so.
\<close>

lemma stored_ok_empty: "list_all (stored_ok cls) (stored empty_database kind)"
  by (simp add: empty_database_def)

lemma stored_ok_preserved:
  assumes "valid_payload cls p" and "list_all (stored_ok cls) (stored db kind)"
    and "create_document kind' p db = (r, db')"
  shows "list_all (stored_ok cls) (stored db' kind)"
proof (cases r)
  case (Inl e)
  with assms(3) have "db' = db" by (auto simp: create_document_def Let_def split: option.splits)
  with assms(2) show ?thesis by simp
next
  case (Inr new_id)
  with assms(3) create_document_Inr [of kind' p db new_id db']
  have "stored db' = (stored db)(kind' := stored db kind' @ [AList.update ''_id'' (PObjectId (next_oid db)) p])"
    by simp
  with assms(1,2) show ?thesis by (auto simp: stored_ok_inserted)
qed

section \<open>The examples, evaluated\<close>

lemma object_id_str_0: "object_id_str 0 = ''000000000000000000000000''"
  by code_simp

lemma object_id_str_1: "object_id_str 1 = ''000000000000000000000001''"
  by code_simp

lemma object_id_str_10: "object_id_str 10 = ''00000000000000000000000a''"
  by code_simp

lemma insert_example:
  "create_document kind example_payload empty_database =
     (Inr ''000000000000000000000000'', inserted kind)"
  by (simp add: create_document_def empty_database_def inserted_def example_payload_def
      object_id_str_0)

lemma insert_example_again:
  "create_document kind example_payload (inserted kind) =
     (Inr ''000000000000000000000001'', inserted_twice kind)"
  by (simp add: create_document_def inserted_def inserted_twice_def example_payload_def
      object_id_str_1)

lemma example_valid: "valid_payload example_class example_payload"
  by (simp add: valid_payload_def class_ok_def accepts_def example_class_def example_payload_def)

lemma list_inserted_inquiry:
  "get_api_inquiries example_class get_documents None (inserted ''inquiry'') =
     (Reply [example_payload @ [(''id'', PStr ''000000000000000000000000'')]],
      inserted ''inquiry'')"
  by (simp add: get_api_inquiries_def Query_def list_inquiries_def get_documents_def inserted_def
      matches_def example_payload_def example_class_def InquiryOut_def d_copy_def dict_get_def
      object_id_str_0 reraise_500_def respond_def)

lemma list_inserted_application:
  "get_api_applications example_class get_documents None (inserted ''application'') =
     (Reply [example_payload @ [(''id'', PStr ''000000000000000000000000'')]],
      inserted ''application'')"
  by (simp add: get_api_applications_def Query_def list_applications_def get_documents_def
      inserted_def matches_def example_payload_def example_class_def ApplicationOut_def d_copy_def
      dict_get_def object_id_str_0 reraise_500_def respond_def)

lemma get_one_stored:
  "get_documents kind [] limit one_stored =
     (Inr (take (nat limit) [example_payload @ [(''_id'', PObjectId 10)]]), one_stored)"
  by (simp add: get_documents_def one_stored_def matches_def)

lemma list_one_stored_inquiry:
  "0 < limit \<Longrightarrow> list_inquiries example_class get_documents limit one_stored =
     (Inr [example_payload @ [(''id'', PStr ''00000000000000000000000a'')]], one_stored)"
  by (cases "nat limit")
    (simp_all add: list_inquiries_def get_one_stored example_payload_def example_class_def
      InquiryOut_def d_copy_def dict_get_def object_id_str_10 reraise_500_def)

lemma list_one_stored_application:
  "0 < limit \<Longrightarrow> list_applications example_class get_documents limit one_stored =
     (Inr [example_payload @ [(''id'', PStr ''00000000000000000000000a'')]], one_stored)"
  by (cases "nat limit")
    (simp_all add: list_applications_def get_one_stored example_payload_def example_class_def
      ApplicationOut_def d_copy_def dict_get_def object_id_str_10 reraise_500_def)

lemma get_without_ids:
  "get_documents kind [] 20 without_ids =
     (Inr [example_payload, example_payload @ [(''_id'', PInt 0)]], without_ids)"
  by (simp add: get_documents_def without_ids_def matches_def)

lemma list_without_ids_inquiry:
  "list_inquiries example_class get_documents 20 without_ids =
     (Inr [example_payload @ [(''id'', PNone)], example_payload @ [(''id'', PNone)]], without_ids)"
  by (simp add: list_inquiries_def get_without_ids example_payload_def example_class_def
      InquiryOut_def d_copy_def dict_get_def reraise_500_def)

lemma list_without_ids_application:
  "list_applications example_class get_documents 20 without_ids =
     (Inr [example_payload @ [(''id'', PNone)], example_payload @ [(''id'', PNone)]], without_ids)"
  by (simp add: list_applications_def get_without_ids example_payload_def example_class_def
      ApplicationOut_def d_copy_def dict_get_def reraise_500_def)

lemma example_class_ok: "class_ok example_class"
  by (simp add: class_ok_def example_class_def)

lemma take_cp_example: "take_cp 50 ''connection refused'' = ''connection refused''"
  by code_simp

section \<open>Create, then list\<close>

text \<open>
  Claim C1. Let the collection hold only documents stored from valid payloads. When a
  valid Inquiry payload is posted and the insert succeeds, a following
  \<open>GET /api/inquiries\<close> whose accepted limit is at least the number of stored inquiries
  replies with a list that contains an object whose fields other than \<open>id\<close> are the
  payload's and whose \<open>id\<close> is the non-empty string the post returned. The same holds
  for applications.
\<close>

theorem posted_document_is_listed:
  "(valid_payload Inquiry p \<and> list_all (stored_ok Inquiry) (stored db ''inquiry'') \<and>
    create_inquiry create_document p db = (Inr r, db') \<and>
    Query 20 1 100 given = Some limit \<and> int (length (stored db' ''inquiry'')) \<le> limit \<longrightarrow>
      (\<exists>out. get_api_inquiries Inquiry get_documents given db' = (Reply out, db') \<and>
        (\<exists>obj \<in> set out.
           filter (\<lambda>(k, v). k \<noteq> ''id'') obj = filter (\<lambda>(k, v). k \<noteq> ''id'') p \<and>
           map_of obj ''id'' = Some (PStr (id r)) \<and> id r \<noteq> []))) \<and>
   (valid_payload Application p \<and> list_all (stored_ok Application) (stored db ''application'') \<and>
    create_application create_document p db = (Inr r, db') \<and>
    Query 20 1 100 given = Some limit \<and> int (length (stored db' ''application'')) \<le> limit \<longrightarrow>
      (\<exists>out. get_api_applications Application get_documents given db' = (Reply out, db') \<and>
        (\<exists>obj \<in> set out.
           filter (\<lambda>(k, v). k \<noteq> ''id'') obj = filter (\<lambda>(k, v). k \<noteq> ''id'') p \<and>
           map_of obj ''id'' = Some (PStr (id r)) \<and> id r \<noteq> [])))"
proof -
  have obj: "filter (\<lambda>(k, v). k \<noteq> ''id'') (AList.update ''id'' (PStr i) p) =
        filter (\<lambda>(k, v). k \<noteq> ''id'') p \<and>
      map_of (AList.update ''id'' (PStr i) p) ''id'' = Some (PStr i)" for i
    by (simp add: filter_update_same update_conv')
  have inq: "\<exists>out. get_api_inquiries Inquiry get_documents given db' = (Reply out, db') \<and>
        (\<exists>obj \<in> set out.
           filter (\<lambda>(k, v). k \<noteq> ''id'') obj = filter (\<lambda>(k, v). k \<noteq> ''id'') p \<and>
           map_of obj ''id'' = Some (PStr (id r)) \<and> id r \<noteq> [])"
    if a: "valid_payload Inquiry p" "list_all (stored_ok Inquiry) (stored db ''inquiry'')"
      "create_inquiry create_document p db = (Inr r, db')"
      "Query 20 1 100 given = Some limit" "int (length (stored db' ''inquiry'')) \<le> limit"
  proof -
    note l = listing_after_insert [OF a(1,2) create_inquiry_Inr [OF a(3)] a(5)]
    from l(1,2) a(4)
    have "get_api_inquiries Inquiry get_documents given db' =
        (Reply (map listed (stored db' ''inquiry'')), db')"
      by (simp add: get_api_inquiries_def list_inquiries_def InquiryOut_def reraise_500_def
          respond_def)
    with l(3,4) obj [of "id r"] show ?thesis by blast
  qed
  have app: "\<exists>out. get_api_applications Application get_documents given db' = (Reply out, db') \<and>
        (\<exists>obj \<in> set out.
           filter (\<lambda>(k, v). k \<noteq> ''id'') obj = filter (\<lambda>(k, v). k \<noteq> ''id'') p \<and>
           map_of obj ''id'' = Some (PStr (id r)) \<and> id r \<noteq> [])"
    if a: "valid_payload Application p" "list_all (stored_ok Application) (stored db ''application'')"
      "create_application create_document p db = (Inr r, db')"
      "Query 20 1 100 given = Some limit" "int (length (stored db' ''application'')) \<le> limit"
  proof -
    note l = listing_after_insert [OF a(1,2) create_application_Inr [OF a(3)] a(5)]
    from l(1,2) a(4)
    have "get_api_applications Application get_documents given db' =
        (Reply (map listed (stored db' ''application'')), db')"
      by (simp add: get_api_applications_def list_applications_def ApplicationOut_def
          reraise_500_def respond_def)
    with l(3,4) obj [of "id r"] show ?thesis by blast
  qed
  from inq app show ?thesis by blast
qed

theorem posted_document_is_listed_witness:
  "valid_payload example_class example_payload \<and>
   list_all (stored_ok example_class) (stored empty_database ''inquiry'') \<and>
   create_inquiry create_document example_payload empty_database =
     (Inr \<lparr>id = ''000000000000000000000000'',
           message = ''Inquiry received. Our team will contact you shortly.''\<rparr>,
      inserted ''inquiry'') \<and>
   Query 20 1 100 None = Some 20 \<and>
   int (length (stored (inserted ''inquiry'') ''inquiry'')) \<le> 20 \<and>
   get_api_inquiries example_class get_documents None (inserted ''inquiry'') =
     (Reply [example_payload @ [(''id'', PStr ''000000000000000000000000'')]],
      inserted ''inquiry'') \<and>
   list_all (stored_ok example_class) (stored empty_database ''application'') \<and>
   create_application create_document example_payload empty_database =
     (Inr \<lparr>id = ''000000000000000000000000'',
           message = ''Application submitted. Our HR team will reach out if there's a fit.''\<rparr>,
      inserted ''application'') \<and>
   int (length (stored (inserted ''application'') ''application'')) \<le> 20 \<and>
   get_api_applications example_class get_documents None (inserted ''application'') =
     (Reply [example_payload @ [(''id'', PStr ''000000000000000000000000'')]],
      inserted ''application'') \<and>
   filter (\<lambda>(k, v). k \<noteq> ''id'')
       (example_payload @ [(''id'', PStr ''000000000000000000000000'')]) =
     filter (\<lambda>(k, v). k \<noteq> ''id'') example_payload \<and>
   map_of (example_payload @ [(''id'', PStr ''000000000000000000000000'')]) ''id'' =
     Some (PStr ''000000000000000000000000'')"
  using posted_document_is_listed [of example_class example_payload empty_database
      "\<lparr>id = ''000000000000000000000000'',
         message = ''Inquiry received. Our team will contact you shortly.''\<rparr>"
      "inserted ''inquiry''" None 20 example_class]
    posted_document_is_listed [of example_class example_payload empty_database
      "\<lparr>id = ''000000000000000000000000'',
         message = ''Application submitted. Our HR team will reach out if there's a fit.''\<rparr>"
      "inserted ''application''" None 20 example_class]
  by (simp add: example_valid stored_ok_empty insert_example create_inquiry_def
      create_application_def reraise_500_def list_inserted_inquiry list_inserted_application
      Query_def)
    (simp add: inserted_def example_payload_def)

section \<open>The listed identifier\<close>

text \<open>
  Claim C2. For every document that a list handler returns, and that the database stored
  under an \<open>ObjectId\<close>, the response object has no \<open>_id\<close> field (no class has a
  field of that name) and its \<open>id\<close> is the string form of that \<open>ObjectId\<close>.
\<close>

theorem listed_id_is_string_of_database_id:
  "(gd ''inquiry'' [] limit s = (Inr docs, t) \<and>
    list_inquiries Inquiry gd limit s = (Inr out, t) \<and>
    i < length docs \<and> map_of (docs ! i) ''_id'' = Some (PObjectId w) \<and>
    ''_id'' \<notin> fst ` set Inquiry \<longrightarrow>
      length out = length docs \<and> map_of (out ! i) ''_id'' = None \<and>
      map_of (out ! i) ''id'' = Some (PStr (py_str (PObjectId w)))) \<and>
   (gd ''application'' [] limit s = (Inr docs, t) \<and>
    list_applications Application gd limit s = (Inr out, t) \<and>
    i < length docs \<and> map_of (docs ! i) ''_id'' = Some (PObjectId w) \<and>
    ''_id'' \<notin> fst ` set Application \<longrightarrow>
      length out = length docs \<and> map_of (out ! i) ''_id'' = None \<and>
      map_of (out ! i) ''id'' = Some (PStr (py_str (PObjectId w))))"
  using listed_inquiries [of gd limit s docs t Inquiry out t i]
    listed_applications [of gd limit s docs t Application out t i]
  by (simp add: dict_get_def)

theorem listed_id_is_string_of_database_id_witness:
  "get_documents ''inquiry'' [] 20 one_stored =
     (Inr [example_payload @ [(''_id'', PObjectId 10)]], one_stored) \<and>
   list_inquiries example_class get_documents 20 one_stored =
     (Inr [example_payload @ [(''id'', PStr ''00000000000000000000000a'')]], one_stored) \<and>
   get_documents ''application'' [] 20 one_stored =
     (Inr [example_payload @ [(''_id'', PObjectId 10)]], one_stored) \<and>
   list_applications example_class get_documents 20 one_stored =
     (Inr [example_payload @ [(''id'', PStr ''00000000000000000000000a'')]], one_stored) \<and>
   (0::nat) < length [example_payload @ [(''_id'', PObjectId 10)]] \<and>
   map_of ([example_payload @ [(''_id'', PObjectId 10)]] ! 0) ''_id'' = Some (PObjectId 10) \<and>
   ''_id'' \<notin> fst ` set example_class \<and>
   map_of ([example_payload @ [(''id'', PStr ''00000000000000000000000a'')]] ! 0) ''_id'' = None \<and>
   map_of ([example_payload @ [(''id'', PStr ''00000000000000000000000a'')]] ! 0) ''id'' =
     Some (PStr (py_str (PObjectId 10))) \<and>
   py_str (PObjectId 10) = ''00000000000000000000000a''"
proof -
  have docs: "get_documents ''inquiry'' [] 20 one_stored =
      (Inr [example_payload @ [(''_id'', PObjectId 10)]], one_stored)"
    "get_documents ''application'' [] 20 one_stored =
      (Inr [example_payload @ [(''_id'', PObjectId 10)]], one_stored)"
    by (simp_all add: get_one_stored)
  have out: "list_inquiries example_class get_documents 20 one_stored =
      (Inr [example_payload @ [(''id'', PStr ''00000000000000000000000a'')]], one_stored)"
    "list_applications example_class get_documents 20 one_stored =
      (Inr [example_payload @ [(''id'', PStr ''00000000000000000000000a'')]], one_stored)"
    by (simp_all add: list_one_stored_inquiry list_one_stored_application)
  have doc: "(0::nat) < length [example_payload @ [(''_id'', PObjectId 10)]]"
    "map_of ([example_payload @ [(''_id'', PObjectId 10)]] ! 0) ''_id'' = Some (PObjectId 10)"
    "''_id'' \<notin> fst ` set example_class"
    by (simp_all add: example_payload_def example_class_def)
  have str: "py_str (PObjectId 10) = ''00000000000000000000000a''"
    by (simp add: object_id_str_10)
  note inst = listed_id_is_string_of_database_id [of get_documents 20 one_stored
      "[example_payload @ [(''_id'', PObjectId 10)]]" one_stored example_class
      "[example_payload @ [(''id'', PStr ''00000000000000000000000a'')]]" 0 10 example_class]
  from inst [THEN conjunct1] docs(1) out(1) doc
  have "map_of ([example_payload @ [(''id'', PStr ''00000000000000000000000a'')]] ! 0) ''_id'' = None \<and>
    map_of ([example_payload @ [(''id'', PStr ''00000000000000000000000a'')]] ! 0) ''id'' =
      Some (PStr (py_str (PObjectId 10)))"
    by blast
  moreover from inst [THEN conjunct2] docs(2) out(2) doc
  have "length [example_payload @ [(''id'', PStr ''00000000000000000000000a'')]] =
      length [example_payload @ [(''_id'', PObjectId 10)]]"
    by blast
  ultimately show ?thesis using docs out doc str by (simp only: simp_thms)
qed

text \<open>
  Claim C8. The \<open>id\<close> a list handler exposes depends on the stored document's
  \<open>_id\<close> alone: two listings, of any states and with any limits, give the same
  \<open>id\<close> to documents with the same \<open>_id\<close>; so the same document fetched twice
  has the same \<open>id\<close> both times.
\<close>

theorem listed_id_depends_on_database_id_only:
  "(gd ''inquiry'' [] limit1 s1 = (Inr docs1, t1) \<and>
    list_inquiries Inquiry gd limit1 s1 = (Inr out1, t1) \<and>
    gd ''inquiry'' [] limit2 s2 = (Inr docs2, t2) \<and>
    list_inquiries Inquiry gd limit2 s2 = (Inr out2, t2) \<and>
    i < length docs1 \<and> j < length docs2 \<and>
    dict_get (docs1 ! i) ''_id'' = dict_get (docs2 ! j) ''_id'' \<longrightarrow>
      map_of (out1 ! i) ''id'' = map_of (out2 ! j) ''id'') \<and>
   (gd ''application'' [] limit1 s1 = (Inr docs1, t1) \<and>
    list_applications Application gd limit1 s1 = (Inr out1, t1) \<and>
    gd ''application'' [] limit2 s2 = (Inr docs2, t2) \<and>
    list_applications Application gd limit2 s2 = (Inr out2, t2) \<and>
    i < length docs1 \<and> j < length docs2 \<and>
    dict_get (docs1 ! i) ''_id'' = dict_get (docs2 ! j) ''_id'' \<longrightarrow>
      map_of (out1 ! i) ''id'' = map_of (out2 ! j) ''id'')"
  using listed_inquiries(2) [of gd limit1 s1 docs1 t1 Inquiry out1 t1 i]
    listed_inquiries(2) [of gd limit2 s2 docs2 t2 Inquiry out2 t2 j]
    listed_applications(2) [of gd limit1 s1 docs1 t1 Application out1 t1 i]
    listed_applications(2) [of gd limit2 s2 docs2 t2 Application out2 t2 j]
  by (simp)

theorem listed_id_depends_on_database_id_only_witness:
  "get_documents ''inquiry'' [] 20 one_stored =
     (Inr [example_payload @ [(''_id'', PObjectId 10)]], one_stored) \<and>
   list_inquiries example_class get_documents 20 one_stored =
     (Inr [example_payload @ [(''id'', PStr ''00000000000000000000000a'')]], one_stored) \<and>
   get_documents ''inquiry'' [] 1 one_stored =
     (Inr [example_payload @ [(''_id'', PObjectId 10)]], one_stored) \<and>
   list_inquiries example_class get_documents 1 one_stored =
     (Inr [example_payload @ [(''id'', PStr ''00000000000000000000000a'')]], one_stored) \<and>
   get_documents ''application'' [] 20 one_stored =
     (Inr [example_payload @ [(''_id'', PObjectId 10)]], one_stored) \<and>
   list_applications example_class get_documents 20 one_stored =
     (Inr [example_payload @ [(''id'', PStr ''00000000000000000000000a'')]], one_stored) \<and>
   get_documents ''application'' [] 1 one_stored =
     (Inr [example_payload @ [(''_id'', PObjectId 10)]], one_stored) \<and>
   list_applications example_class get_documents 1 one_stored =
     (Inr [example_payload @ [(''id'', PStr ''00000000000000000000000a'')]], one_stored) \<and>
   (0::nat) < length [example_payload @ [(''_id'', PObjectId 10)]] \<and>
   map_of ([example_payload @ [(''id'', PStr ''00000000000000000000000a'')]] ! 0) ''id'' =
     Some (PStr ''00000000000000000000000a'')"
  using listed_id_depends_on_database_id_only [of get_documents 20 one_stored
      "[example_payload @ [(''_id'', PObjectId 10)]]" one_stored example_class
      "[example_payload @ [(''id'', PStr ''00000000000000000000000a'')]]" 1 one_stored
      "[example_payload @ [(''_id'', PObjectId 10)]]" one_stored
      "[example_payload @ [(''id'', PStr ''00000000000000000000000a'')]]" 0 0 example_class]
  by (simp add: get_one_stored list_one_stored_inquiry list_one_stored_application
      example_payload_def)

text \<open>
  Claim C10. Let \<open>get_documents\<close> return documents whose declared fields, \<open>id\<close>
  apart, the class accepts. A document among them that has no \<open>_id\<close>, or a falsy one,
  does not make the list handler fail: the handler returns one object per document, and
  the object of that document has \<open>id\<close> set to \<open>None\<close>.
\<close>

theorem missing_database_id_lists_as_none:
  "(class_ok Inquiry \<and> gd ''inquiry'' [] limit s = (Inr docs, t) \<and>
    (\<forall>d \<in> set docs. other_fields_ok Inquiry d) \<and> i < length docs \<and>
    (map_of (docs ! i) ''_id'' = None \<or>
     (\<exists>v. map_of (docs ! i) ''_id'' = Some v \<and> \<not> truthy v)) \<longrightarrow>
      (\<exists>out. list_inquiries Inquiry gd limit s = (Inr out, t) \<and> length out = length docs \<and>
             map_of (out ! i) ''id'' = Some PNone)) \<and>
   (class_ok Application \<and> gd ''application'' [] limit s = (Inr docs, t) \<and>
    (\<forall>d \<in> set docs. other_fields_ok Application d) \<and> i < length docs \<and>
    (map_of (docs ! i) ''_id'' = None \<or>
     (\<exists>v. map_of (docs ! i) ''_id'' = Some v \<and> \<not> truthy v)) \<longrightarrow>
      (\<exists>out. list_applications Application gd limit s = (Inr out, t) \<and>
             length out = length docs \<and> map_of (out ! i) ''id'' = Some PNone))"
proof -
  have falsy: "\<not> truthy (dict_get d ''_id'')"
    if "map_of d ''_id'' = None \<or> (\<exists>v. map_of d ''_id'' = Some v \<and> \<not> truthy v)" for d
    using that by (auto simp: dict_get_def)
  have inq: "\<exists>out. list_inquiries Inquiry gd limit s = (Inr out, t) \<and> length out = length docs \<and>
             map_of (out ! i) ''id'' = Some PNone"
    if a: "class_ok Inquiry" "gd ''inquiry'' [] limit s = (Inr docs, t)"
      "\<forall>d \<in> set docs. other_fields_ok Inquiry d" "i < length docs"
      "map_of (docs ! i) ''_id'' = None \<or> (\<exists>v. map_of (docs ! i) ''_id'' = Some v \<and> \<not> truthy v)"
  proof -
    from list_inquiries_succeeds [of Inquiry gd limit s docs t] a(1,2,3) obtain out
      where out: "list_inquiries Inquiry gd limit s = (Inr out, t)" by blast
    from listed_inquiries(1,2) [of gd limit s docs t Inquiry out t i] a(2,4) falsy [OF a(5)] out
    show ?thesis by simp
  qed
  have app: "\<exists>out. list_applications Application gd limit s = (Inr out, t) \<and>
             length out = length docs \<and> map_of (out ! i) ''id'' = Some PNone"
    if a: "class_ok Application" "gd ''application'' [] limit s = (Inr docs, t)"
      "\<forall>d \<in> set docs. other_fields_ok Application d" "i < length docs"
      "map_of (docs ! i) ''_id'' = None \<or> (\<exists>v. map_of (docs ! i) ''_id'' = Some v \<and> \<not> truthy v)"
  proof -
    from list_applications_succeeds [of Application gd limit s docs t] a(1,2,3) obtain out
      where out: "list_applications Application gd limit s = (Inr out, t)" by blast
    from listed_applications(1,2) [of gd limit s docs t Application out t i] a(2,4)
      falsy [OF a(5)] out
    show ?thesis by simp
  qed
  from inq app show ?thesis by blast
qed

theorem missing_database_id_lists_as_none_witness:
  "class_ok example_class \<and>
   get_documents ''inquiry'' [] 20 without_ids =
     (Inr [example_payload, example_payload @ [(''_id'', PInt 0)]], without_ids) \<and>
   get_documents ''application'' [] 20 without_ids =
     (Inr [example_payload, example_payload @ [(''_id'', PInt 0)]], without_ids) \<and>
   other_fields_ok example_class example_payload \<and>
   other_fields_ok example_class (example_payload @ [(''_id'', PInt 0)]) \<and>
   map_of ([example_payload, example_payload @ [(''_id'', PInt 0)]] ! 0) ''_id'' = None \<and>
   map_of ([example_payload, example_payload @ [(''_id'', PInt 0)]] ! 1) ''_id'' =
     Some (PInt 0) \<and>
   \<not> truthy (PInt 0) \<and>
   list_inquiries example_class get_documents 20 without_ids =
     (Inr [example_payload @ [(''id'', PNone)], example_payload @ [(''id'', PNone)]],
      without_ids) \<and>
   list_applications example_class get_documents 20 without_ids =
     (Inr [example_payload @ [(''id'', PNone)], example_payload @ [(''id'', PNone)]],
      without_ids) \<and>
   map_of ([example_payload @ [(''id'', PNone)], example_payload @ [(''id'', PNone)]] ! 0) ''id'' =
     Some PNone \<and>
   map_of ([example_payload @ [(''id'', PNone)], example_payload @ [(''id'', PNone)]] ! 1) ''id'' =
     Some PNone"
  using missing_database_id_lists_as_none [of example_class get_documents 20 without_ids
      "[example_payload, example_payload @ [(''_id'', PInt 0)]]" without_ids 0 example_class]
    missing_database_id_lists_as_none [of example_class get_documents 20 without_ids
      "[example_payload, example_payload @ [(''_id'', PInt 0)]]" without_ids 1 example_class]
  by (simp add: example_class_ok get_without_ids list_without_ids_inquiry
      list_without_ids_application)
    (simp add: other_fields_ok_def example_class_def example_payload_def)

section \<open>Storage failures\<close>

text \<open>
  Claim C3. In each of the four document handlers, when the storage operation raises an
  exception \<open>e\<close>, the handler raises \<open>HTTPException\<close> with status 500 and detail
  \<open>str(e)\<close>; and whatever a handler raises, it is an \<open>HTTPException\<close> with status
  500, so no other exception leaves it.
\<close>

theorem storage_exception_becomes_500:
  "(cd ''inquiry'' p s = (Inl e, s') \<longrightarrow>
      create_inquiry cd p s = (Inl (HTTPException 500 (exn_str e)), s')) \<and>
   (cd ''application'' p s = (Inl e, s') \<longrightarrow>
      create_application cd p s = (Inl (HTTPException 500 (exn_str e)), s')) \<and>
   (gd ''inquiry'' [] limit s = (Inl e, s') \<longrightarrow>
      list_inquiries Inquiry gd limit s = (Inl (HTTPException 500 (exn_str e)), s')) \<and>
   (gd ''application'' [] limit s = (Inl e, s') \<longrightarrow>
      list_applications Application gd limit s = (Inl (HTTPException 500 (exn_str e)), s')) \<and>
   (\<forall>h. fst (create_inquiry cd p s) = Inl h \<or> fst (create_application cd p s) = Inl h \<or>
        fst (list_inquiries Inquiry gd limit s) = Inl h \<or>
        fst (list_applications Application gd limit s) = Inl h \<longrightarrow> status_code h = 500)"
  by (auto simp: create_inquiry_def create_application_def list_inquiries_def
      list_applications_def split: prod.splits dest: reraise_500_Inl)
    (simp_all add: reraise_500_def)

theorem storage_exception_becomes_500_witness:
  "create_document ''inquiry'' example_payload unreachable =
     (Inl (Exception ''connection refused''), unreachable) \<and>
   create_document ''application'' example_payload unreachable =
     (Inl (Exception ''connection refused''), unreachable) \<and>
   get_documents ''inquiry'' [] 20 unreachable =
     (Inl (Exception ''connection refused''), unreachable) \<and>
   get_documents ''application'' [] 20 unreachable =
     (Inl (Exception ''connection refused''), unreachable) \<and>
   create_inquiry create_document example_payload unreachable =
     (Inl (HTTPException 500 ''connection refused''), unreachable) \<and>
   create_application create_document example_payload unreachable =
     (Inl (HTTPException 500 ''connection refused''), unreachable) \<and>
   list_inquiries example_class get_documents 20 unreachable =
     (Inl (HTTPException 500 ''connection refused''), unreachable) \<and>
   list_applications example_class get_documents 20 unreachable =
     (Inl (HTTPException 500 ''connection refused''), unreachable) \<and>
   status_code (HTTPException 500 ''connection refused'') = 500"
  using storage_exception_becomes_500 [of create_document example_payload unreachable
      "Exception ''connection refused''" unreachable get_documents 20 example_class
      example_class]
  by (simp add: create_document_def get_documents_def unreachable_def empty_database_def)

section \<open>The limit\<close>

text \<open>
  Claim C4. The list endpoints read \<open>limit\<close> before the handler runs. An omitted
  \<open>limit\<close> is 20. A given \<open>limit\<close> from 1 to 100 is accepted, and then the call
  \<open>get_documents\<close> receives is the kind, the empty filter and that very value. A
  \<open>limit\<close> below 1 or above 100 is refused: the reply is the framework's, the storage
  state is unchanged, and \<open>get_documents\<close> is not called.
\<close>

theorem limit_checked_before_handler:
  "get_api_inquiries Inquiry recording_get_documents None [] =
     (Reply [], [(''inquiry'', [], 20)]) \<and>
   get_api_applications Application recording_get_documents None [] =
     (Reply [], [(''application'', [], 20)]) \<and>
   (1 \<le> v \<and> v \<le> 100 \<longrightarrow>
      get_api_inquiries Inquiry recording_get_documents (Some v) [] =
        (Reply [], [(''inquiry'', [], v)]) \<and>
      get_api_applications Application recording_get_documents (Some v) [] =
        (Reply [], [(''application'', [], v)]) \<and>
      get_api_inquiries Inquiry gd (Some v) s = respond (list_inquiries Inquiry gd v s) \<and>
      get_api_applications Application gd (Some v) s =
        respond (list_applications Application gd v s)) \<and>
   (v < 1 \<or> 100 < v \<longrightarrow>
      get_api_inquiries Inquiry gd (Some v) s = (Unprocessable, s) \<and>
      get_api_applications Application gd (Some v) s = (Unprocessable, s) \<and>
      get_api_inquiries Inquiry recording_get_documents (Some v) [] = (Unprocessable, []) \<and>
      get_api_applications Application recording_get_documents (Some v) [] = (Unprocessable, []))"
  by (auto simp: get_api_inquiries_def get_api_applications_def Query_def respond_def
      list_inquiries_def list_applications_def recording_get_documents_def reraise_500_def)

theorem limit_checked_before_handler_witness:
  "(1::int) \<le> 100 \<and> (100::int) \<le> 100 \<and>
   get_api_inquiries [] recording_get_documents (Some 100) [] =
     (Reply [], [(''inquiry'', [], 100)]) \<and>
   get_api_applications [] recording_get_documents (Some 100) [] =
     (Reply [], [(''application'', [], 100)]) \<and>
   (100::int) < 101 \<and>
   get_api_inquiries [] recording_get_documents (Some 101) [] = (Unprocessable, []) \<and>
   get_api_applications [] recording_get_documents (Some 101) [] = (Unprocessable, []) \<and>
   (0::int) < 1 \<and>
   get_api_inquiries [] recording_get_documents (Some 0) [] = (Unprocessable, []) \<and>
   get_api_applications [] recording_get_documents (Some 0) [] = (Unprocessable, [])"
  using limit_checked_before_handler [of "[]" "[]" 100 recording_get_documents "[]"]
    limit_checked_before_handler [of "[]" "[]" 101 recording_get_documents "[]"]
    limit_checked_before_handler [of "[]" "[]" 0 recording_get_documents "[]"]
  by simp

section \<open>Successful creation\<close>

text \<open>
  Claim C5. When the insert succeeds with identifier \<open>new_id\<close>, \<open>create_inquiry\<close>
  returns the object of exactly the two fields \<open>id = new_id\<close> and
  \<open>message = "Inquiry received. Our team will contact you shortly."\<close>, for every
  payload; \<open>create_application\<close> does the same with its own message.
\<close>

theorem create_returns_id_and_message:
  "(cd ''inquiry'' p s = (Inr new_id, s') \<longrightarrow>
      create_inquiry cd p s =
        (Inr \<lparr>id = new_id, message = ''Inquiry received. Our team will contact you shortly.''\<rparr>,
         s')) \<and>
   (cd ''application'' p s = (Inr new_id, s') \<longrightarrow>
      create_application cd p s =
        (Inr \<lparr>id = new_id,
              message = ''Application submitted. Our HR team will reach out if there's a fit.''\<rparr>,
         s'))"
  by (simp add: create_inquiry_def create_application_def reraise_500_def)

theorem create_returns_id_and_message_witness:
  "create_document ''inquiry'' example_payload empty_database =
     (Inr ''000000000000000000000000'', inserted ''inquiry'') \<and>
   create_inquiry create_document example_payload empty_database =
     (Inr \<lparr>id = ''000000000000000000000000'',
           message = ''Inquiry received. Our team will contact you shortly.''\<rparr>,
      inserted ''inquiry'') \<and>
   create_document ''application'' example_payload empty_database =
     (Inr ''000000000000000000000000'', inserted ''application'') \<and>
   create_application create_document example_payload empty_database =
     (Inr \<lparr>id = ''000000000000000000000000'',
           message = ''Application submitted. Our HR team will reach out if there's a fit.''\<rparr>,
      inserted ''application'')"
  using create_returns_id_and_message [of create_document example_payload empty_database
      "''000000000000000000000000''" "inserted ''inquiry''"]
    create_returns_id_and_message [of create_document example_payload empty_database
      "''000000000000000000000000''" "inserted ''application''"]
  by (simp add: insert_example)

section \<open>Listing nothing\<close>

text \<open>
  Claim C6. When \<open>get_documents\<close> returns the empty sequence, the list handlers return
  the empty list, and the endpoints reply with it under status 200.
\<close>

theorem empty_storage_lists_empty:
  "(Query 20 1 100 given = Some limit \<and> gd ''inquiry'' [] limit s = (Inr [], s') \<longrightarrow>
      list_inquiries Inquiry gd limit s = (Inr [], s') \<and>
      get_api_inquiries Inquiry gd given s = (Reply [], s') \<and>
      reply_status (fst (get_api_inquiries Inquiry gd given s)) = 200) \<and>
   (Query 20 1 100 given = Some limit \<and> gd ''application'' [] limit s = (Inr [], s') \<longrightarrow>
      list_applications Application gd limit s = (Inr [], s') \<and>
      get_api_applications Application gd given s = (Reply [], s') \<and>
      reply_status (fst (get_api_applications Application gd given s)) = 200)"
  by (simp add: list_inquiries_def list_applications_def get_api_inquiries_def
      get_api_applications_def reraise_500_def respond_def)

theorem empty_storage_lists_empty_witness:
  "Query 20 1 100 None = Some 20 \<and>
   get_documents ''inquiry'' [] 20 empty_database = (Inr [], empty_database) \<and>
   get_documents ''application'' [] 20 empty_database = (Inr [], empty_database) \<and>
   list_inquiries example_class get_documents 20 empty_database = (Inr [], empty_database) \<and>
   get_api_inquiries example_class get_documents None empty_database =
     (Reply [], empty_database) \<and>
   list_applications example_class get_documents 20 empty_database = (Inr [], empty_database) \<and>
   get_api_applications example_class get_documents None empty_database =
     (Reply [], empty_database) \<and>
   reply_status (Reply ([] :: doc list)) = 200"
  using empty_storage_lists_empty [of None 20 get_documents empty_database empty_database
      example_class example_class]
  by (simp add: Query_def get_documents_def empty_database_def matches_def)

section \<open>Distinct identifiers\<close>

text \<open>
  Claim C7. Two consecutive successful inserts of the same payload into the same
  collection return two different identifier strings, by \<open>create_document\<close> itself and
  through \<open>create_inquiry\<close>.
\<close>

theorem consecutive_inserts_distinct_ids:
  "(create_document kind payload db = (Inr id1, db1) \<and>
    create_document kind payload db1 = (Inr id2, db2) \<longrightarrow> id1 \<noteq> id2) \<and>
   (create_inquiry create_document payload db = (Inr r1, db1) \<and>
    create_inquiry create_document payload db1 = (Inr r2, db2) \<longrightarrow> id r1 \<noteq> id r2)"
proof -
  have ne: "id1 \<noteq> id2"
    if "create_document k payload db = (Inr id1, db1)" "create_document k payload db1 = (Inr id2, db2)"
    for k id1 id2
  proof
    assume eq: "id1 = id2"
    from create_document_Inr [OF that(1)]
    have 1: "id1 = object_id_str (next_oid db)" "next_oid db1 = next_oid db + 1"
      by simp_all
    from create_document_Inr [OF that(2)]
    have 2: "id2 = object_id_str (next_oid db1)" by simp
    from eq 1 2
    have "object_id_str (next_oid db) = object_id_str (next_oid db + 1)"
      by (simp only:)
    from object_id_str_inj [OF this] show False by simp
  qed
  have "id r1 \<noteq> id r2"
    if "create_inquiry create_document payload db = (Inr r1, db1)"
      "create_inquiry create_document payload db1 = (Inr r2, db2)"
  proof -
    from that obtain i1 i2 where "create_document ''inquiry'' payload db = (Inr i1, db1)" "id r1 = i1"
      "create_document ''inquiry'' payload db1 = (Inr i2, db2)" "id r2 = i2"
      by (auto simp: create_inquiry_def reraise_500_def split: prod.splits sum.splits)
    with ne [of "''inquiry''" i1 i2] show ?thesis by simp
  qed
  with ne [of kind id1 id2] show ?thesis by blast
qed

theorem consecutive_inserts_distinct_ids_witness:
  "create_document ''inquiry'' example_payload empty_database =
     (Inr ''000000000000000000000000'', inserted ''inquiry'') \<and>
   create_document ''inquiry'' example_payload (inserted ''inquiry'') =
     (Inr ''000000000000000000000001'', inserted_twice ''inquiry'') \<and>
   ''000000000000000000000000'' \<noteq> ''000000000000000000000001'' \<and>
   create_inquiry create_document example_payload empty_database =
     (Inr \<lparr>id = ''000000000000000000000000'',
           message = ''Inquiry received. Our team will contact you shortly.''\<rparr>,
      inserted ''inquiry'') \<and>
   create_inquiry create_document example_payload (inserted ''inquiry'') =
     (Inr \<lparr>id = ''000000000000000000000001'',
           message = ''Inquiry received. Our team will contact you shortly.''\<rparr>,
      inserted_twice ''inquiry'')"
  using consecutive_inserts_distinct_ids [of "''inquiry''" example_payload empty_database
      "''000000000000000000000000''" "inserted ''inquiry''" "''000000000000000000000001''"
      "inserted_twice ''inquiry''"
      "\<lparr>id = ''000000000000000000000000'',
         message = ''Inquiry received. Our team will contact you shortly.''\<rparr>"
      "\<lparr>id = ''000000000000000000000001'',
         message = ''Inquiry received. Our team will contact you shortly.''\<rparr>"]
  by (simp add: insert_example insert_example_again create_inquiry_def reraise_500_def)

section \<open>The diagnostic endpoint\<close>

text \<open>
  Claim C9. \<open>GET /test\<close> returns its diagnostic object in every state of the database
  handle, with no exception left uncaught: the handle absent, reading its name raising,
  listing its collections raising, or the handle working. The object reports whether
  \<open>DATABASE_URL\<close> and \<open>DATABASE_NAME\<close> are set, the state of the database, and at
  most 10 collection names.
\<close>

theorem test_database_total:
  "length (collections (test_database db getenv)) \<le> 10 \<and>
   backend (test_database db getenv) = check_mark @ '' Running'' \<and>
   database_url (test_database db getenv) =
     PStr (if env_set getenv ''DATABASE_URL'' then check_mark @ '' Set''
           else cross_mark @ '' Not Set'') \<and>
   database_name (test_database db getenv) =
     PStr (if env_set getenv ''DATABASE_NAME'' then check_mark @ '' Set''
           else cross_mark @ '' Not Set'') \<and>
   (db = None \<longrightarrow>
      database (test_database db getenv) = warning_sign @ ''  Available but not initialized'' \<and>
      connection_status (test_database db getenv) = ''Not Connected'' \<and>
      collections (test_database db getenv) = []) \<and>
   (db = Some h \<and> name_attr h = Some (Inl e) \<longrightarrow>
      database (test_database db getenv) = cross_mark @ '' Error: '' @ take_cp 50 (exn_str e) \<and>
      connection_status (test_database db getenv) = ''Not Connected'' \<and>
      collections (test_database db getenv) = []) \<and>
   (db = Some h \<and> (\<forall>e'. name_attr h \<noteq> Some (Inl e')) \<and> list_collection_names h = Inl e \<longrightarrow>
      database (test_database db getenv) =
        warning_sign @ ''  Connected but Error: '' @ take_cp 50 (exn_str e) \<and>
      connection_status (test_database db getenv) = ''Connected'' \<and>
      collections (test_database db getenv) = []) \<and>
   (db = Some h \<and> (\<forall>e'. name_attr h \<noteq> Some (Inl e')) \<and> list_collection_names h = Inr names \<longrightarrow>
      database (test_database db getenv) = check_mark @ '' Connected & Working'' \<and>
      connection_status (test_database db getenv) = ''Connected'' \<and>
      collections (test_database db getenv) = take 10 names)"
  by (auto simp: test_database_def Let_def split: option.splits sum.splits)

theorem test_database_total_witness:
  "database (test_database None example_env) =
     warning_sign @ ''  Available but not initialized'' \<and>
   collections (test_database None example_env) = [] \<and>
   database (test_database (Some (failing_handle\<lparr>name_attr := Some (Inl (Exception ''connection refused''))\<rparr>)) example_env) =
     cross_mark @ '' Error: connection refused'' \<and>
   name_attr failing_handle = Some (Inr (PStr ''app'')) \<and>
   list_collection_names failing_handle = Inl (Exception ''connection refused'') \<and>
   database (test_database (Some failing_handle) example_env) =
     warning_sign @ ''  Connected but Error: connection refused'' \<and>
   collections (test_database (Some failing_handle) example_env) = [] \<and>
   name_attr working_handle = Some (Inr (PStr ''app'')) \<and>
   database (test_database (Some working_handle) example_env) =
     check_mark @ '' Connected & Working'' \<and>
   collections (test_database (Some working_handle) example_env) =
     [''c01'', ''c02'', ''c03'', ''c04'', ''c05'', ''c06'', ''c07'', ''c08'', ''c09'', ''c10''] \<and>
   database_url (test_database (Some working_handle) example_env) = PStr (check_mark @ '' Set'') \<and>
   database_name (test_database (Some working_handle) example_env) =
     PStr (cross_mark @ '' Not Set'')"
  using test_database_total [of None example_env]
    test_database_total [of "Some (failing_handle\<lparr>name_attr := Some (Inl (Exception ''connection refused''))\<rparr>)"
      example_env "failing_handle\<lparr>name_attr := Some (Inl (Exception ''connection refused''))\<rparr>"
      "Exception ''connection refused''"]
    test_database_total [of "Some failing_handle" example_env failing_handle
      "Exception ''connection refused''"]
    test_database_total [of "Some working_handle" example_env working_handle _
      "[''c01'', ''c02'', ''c03'', ''c04'', ''c05'', ''c06'', ''c07'', ''c08'', ''c09'', ''c10'',
        ''c11'', ''c12'']"]
  by (simp add: failing_handle_def working_handle_def example_env_def env_set_def
      take_cp_example)

end
